theory Spec2Isabelle
  imports Complex_Main
begin

section \<open>The task store of TaskGlitch (src/hooks/useTasks.ts)\<close>

text \<open>
  The hook \<^verbatim>\<open>useTasks\<close> owns four pieces of React state: the task collection, the
  loading flag, the error string and the undo slot \<^verbatim>\<open>lastDeleted\<close>. Each callback of
  the hook is embedded as a function from the committed state to the next committed state;
  a sequence of calls is the composition of these functions, every call seeing the state
  the previous call committed.

  Timestamps are the ISO strings that \<^verbatim>\<open>new Date().toISOString()\<close> returns and are
  passed in as arguments, as is the identifier that \<^verbatim>\<open>crypto.randomUUID()\<close> returns.
\<close>

subsection \<open>Data model\<close>

datatype Status = Todo | InProgress | Done

datatype Priority = High | Medium | Low

text \<open>
  What a field of static type \<^verbatim>\<open>number\<close> can hold when the callbacks run: a finite number
  (a real here, without rounding), \<^verbatim>\<open>NaN\<close>, or \<^verbatim>\<open>undefined\<close>, which a \<^verbatim>\<open>Partial<Task>\<close>
  may carry under a key and the spread then copies into the task. The infinities are not
  represented. The comparisons \<^verbatim>\<open>x > 0\<close> and \<^verbatim>\<open>x <= 0\<close> are both false for \<^verbatim>\<open>NaN\<close> and
  for \<^verbatim>\<open>undefined\<close> (which converts to \<^verbatim>\<open>NaN\<close>); \<^verbatim>\<open>a + b\<close> is \<^verbatim>\<open>NaN\<close> as soon as one
  operand is \<^verbatim>\<open>NaN\<close> or \<^verbatim>\<open>undefined\<close>.
\<close>

datatype JsNumber = Num real | NaN | Undefined

fun js_gt0 :: "JsNumber \<Rightarrow> bool" where
  "js_gt0 (Num r) = (r > 0)"
| "js_gt0 NaN = False"
| "js_gt0 Undefined = False"

fun js_le0 :: "JsNumber \<Rightarrow> bool" where
  "js_le0 (Num r) = (r \<le> 0)"
| "js_le0 NaN = False"
| "js_le0 Undefined = False"

fun js_add :: "JsNumber \<Rightarrow> JsNumber \<Rightarrow> JsNumber" where
  "js_add (Num a) (Num b) = Num (a + b)"
| "js_add a b = NaN"

text \<open>
  Modelled from the spec: the type \<^verbatim>\<open>Task\<close> is declared in \<^verbatim>\<open>@/types\<close>, which is
  not among the sources. The fields are those of the data model of the specification; the
  field \<^verbatim>\<open>id\<close> is named \<open>task_id\<close> here, and an absent \<^verbatim>\<open>completedAt\<close> is \<open>None\<close>.
\<close>

record Task =
  task_id :: string
  title :: string
  status :: Status
  priority :: Priority
  revenue :: JsNumber
  timeTaken :: JsNumber
  createdAt :: string
  completedAt :: "string option"

text \<open>
  \<^verbatim>\<open>Partial<Task>\<close>: every field may be absent (\<open>None\<close>). For the optional field
  \<^verbatim>\<open>completedAt\<close> a patch may also carry the key with the value \<^verbatim>\<open>undefined\<close>, which is
  \<open>Some None\<close>; for the two numbers it is \<open>Some Undefined\<close>.
\<close>

record Partial_Task =
  p_id :: "string option"
  p_title :: "string option"
  p_status :: "Status option"
  p_priority :: "Priority option"
  p_revenue :: "JsNumber option"
  p_timeTaken :: "JsNumber option"
  p_createdAt :: "string option"
  p_completedAt :: "string option option"

text \<open>
  The argument of \<^verbatim>\<open>addTask\<close>, of type \<^verbatim>\<open>Omit<Task, 'id'> & { id?: string }\<close>. The
  object literal built by \<^verbatim>\<open>addTask\<close> writes \<^verbatim>\<open>createdAt\<close> and \<^verbatim>\<open>completedAt\<close> after
  the spread of the argument, so whatever the argument carries for these two keys is
  overwritten; they are left out of the record.
\<close>

record NewTask =
  n_id :: "string option"
  n_title :: string
  n_status :: Status
  n_priority :: Priority
  n_revenue :: JsNumber
  n_timeTaken :: JsNumber

record UseTasksState =
  tasks :: "Task list"
  loading :: bool
  error :: "string option"
  lastDeleted :: "Task option"

text \<open>The state of the first render: the arguments of the four \<^verbatim>\<open>useState\<close> calls.\<close>

definition initial_state :: UseTasksState where
  "initial_state = \<lparr>tasks = [], loading = True, error = None, lastDeleted = None\<rparr>"

subsection \<open>The CRUD callbacks\<close>

text \<open>
  \<^verbatim>\<open>addTask\<close>: \<open>uuid\<close> is what \<^verbatim>\<open>crypto.randomUUID()\<close> would return,
  \<open>now_created\<close> and \<open>now_completed\<close> are the results of the two
  \<^verbatim>\<open>new Date().toISOString()\<close> calls.
\<close>

definition addTask ::
  "string \<Rightarrow> string \<Rightarrow> string \<Rightarrow> NewTask \<Rightarrow> UseTasksState \<Rightarrow> UseTasksState" where
  "addTask uuid now_created now_completed task s =
     s\<lparr>tasks := tasks s @
       [\<lparr>task_id = (case n_id task of Some i \<Rightarrow> i | None \<Rightarrow> uuid),
         title = n_title task,
         status = n_status task,
         priority = n_priority task,
         revenue = n_revenue task,
         timeTaken = (if js_gt0 (n_timeTaken task) then n_timeTaken task else Num 1),
         createdAt = now_created,
         completedAt = (if n_status task = Done then Some now_completed else None)\<rparr>]\<rparr>"

text \<open>The spread \<^verbatim>\<open>{ ...t, ...patch }\<close>: a key of the patch wins over the task's.\<close>

definition spread :: "Task \<Rightarrow> Partial_Task \<Rightarrow> Task" where
  "spread t patch =
     \<lparr>task_id = (case p_id patch of None \<Rightarrow> task_id t | Some v \<Rightarrow> v),
      title = (case p_title patch of None \<Rightarrow> title t | Some v \<Rightarrow> v),
      status = (case p_status patch of None \<Rightarrow> status t | Some v \<Rightarrow> v),
      priority = (case p_priority patch of None \<Rightarrow> priority t | Some v \<Rightarrow> v),
      revenue = (case p_revenue patch of None \<Rightarrow> revenue t | Some v \<Rightarrow> v),
      timeTaken = (case p_timeTaken patch of None \<Rightarrow> timeTaken t | Some v \<Rightarrow> v),
      createdAt = (case p_createdAt patch of None \<Rightarrow> createdAt t | Some v \<Rightarrow> v),
      completedAt = (case p_completedAt patch of None \<Rightarrow> completedAt t | Some v \<Rightarrow> v)\<rparr>"

text \<open>The callback that \<^verbatim>\<open>updateTask\<close> maps over the collection.\<close>

definition updateOne :: "string \<Rightarrow> string \<Rightarrow> Partial_Task \<Rightarrow> Task \<Rightarrow> Task" where
  "updateOne now i patch t =
     (if task_id t \<noteq> i then t
      else
        let next0 = spread t patch;
            next1 = (if js_le0 (timeTaken next0) then next0\<lparr>timeTaken := Num 1\<rparr> else next0);
            next2 = (if status t \<noteq> Done \<and> status next1 = Done
                     then next1\<lparr>completedAt := Some now\<rparr> else next1)
        in next2)"

definition updateTask :: "string \<Rightarrow> string \<Rightarrow> Partial_Task \<Rightarrow> UseTasksState \<Rightarrow> UseTasksState" where
  "updateTask now i patch s = s\<lparr>tasks := map (updateOne now i patch) (tasks s)\<rparr>"

text \<open>
  \<^verbatim>\<open>deleteTask\<close>: \<^verbatim>\<open>prev.find(...) || null\<close> is the first task with the id, or
  \<open>None\<close>; the undo slot is set to it whether or not a task was found.
\<close>

definition deleteTask :: "string \<Rightarrow> UseTasksState \<Rightarrow> UseTasksState" where
  "deleteTask i s =
     (let target = find (\<lambda>t. task_id t = i) (tasks s)
      in s\<lparr>lastDeleted := target, tasks := filter (\<lambda>t. task_id t \<noteq> i) (tasks s)\<rparr>)"

definition undoDelete :: "UseTasksState \<Rightarrow> UseTasksState" where
  "undoDelete s =
     (case lastDeleted s of
        None \<Rightarrow> s
      | Some d \<Rightarrow> s\<lparr>tasks := tasks s @ [d], lastDeleted := None\<rparr>)"

definition clearLastDeleted :: "UseTasksState \<Rightarrow> UseTasksState" where
  "clearLastDeleted s = s\<lparr>lastDeleted := None\<rparr>"

subsection \<open>Sequences of store operations\<close>

datatype Op =
    AddTask string string string NewTask
  | UpdateTask string string Partial_Task
  | DeleteTask string
  | UndoDelete
  | ClearLastDeleted

fun step :: "Op \<Rightarrow> UseTasksState \<Rightarrow> UseTasksState" where
  "step (AddTask uuid now_created now_completed task) s = addTask uuid now_created now_completed task s"
| "step (UpdateTask now i patch) s = updateTask now i patch s"
| "step (DeleteTask i) s = deleteTask i s"
| "step UndoDelete s = undoDelete s"
| "step ClearLastDeleted s = clearLastDeleted s"

fun run :: "Op list \<Rightarrow> UseTasksState \<Rightarrow> UseTasksState" where
  "run [] s = s"
| "run (x # xs) s = run xs (step x s)"

subsection \<open>The initial load\<close>

text \<open>
  What \<^verbatim>\<open>await fetch(...)\<close> and \<^verbatim>\<open>await res.json()\<close> can do: throw (the value thrown
  has a \<^verbatim>\<open>message\<close> or not) or return. The parsed body is an array, whose elements the
  code takes as tasks, or some other JSON value.
\<close>

datatype 'a Outcome = Throws "string option" | Returns 'a

datatype Json = JArray "Task list" | JNotArray

record Response =
  ok :: bool
  json :: "Json Outcome"

text \<open>
  \<^verbatim>\<open>loadTasks\<close> of the load effect. The generator \<^verbatim>\<open>generateSalesTasks\<close> is imported from
  \<^verbatim>\<open>@/utils/seed\<close>, which is not among the sources, and is a parameter. \<open>mounted\<close> is
  the flag that the clean-up of the effect clears.
\<close>

definition loadTasks ::
  "(nat \<Rightarrow> Task list) \<Rightarrow> bool \<Rightarrow> Response Outcome \<Rightarrow> UseTasksState \<Rightarrow> UseTasksState" where
  "loadTasks generateSalesTasks mounted fetched s =
     (let body = (case fetched of
                    Throws e \<Rightarrow> Throws e
                  | Returns res \<Rightarrow> if ok res then json res else Returns (JArray []));
          s1 = (case body of
                  Returns data \<Rightarrow>
                    let normalized = (case data of JArray xs \<Rightarrow> xs | JNotArray \<Rightarrow> []);
                        safeData = (if normalized \<noteq> [] then normalized
                                    else generateSalesTasks 50)
                    in if mounted then s\<lparr>tasks := safeData\<rparr> else s
                | Throws e \<Rightarrow>
                    if mounted
                    then s\<lparr>error := Some (case e of Some m \<Rightarrow> m
                                                | None \<Rightarrow> ''Failed to load tasks'')\<rparr>
                    else s)
      in if mounted then s1\<lparr>loading := False\<rparr> else s1)"

subsection \<open>The published metrics\<close>

record Metrics =
  totalRevenue :: JsNumber
  totalTimeTaken :: JsNumber
  timeEfficiencyPct :: JsNumber
  revenuePerHour :: JsNumber
  averageROI :: JsNumber
  performanceGrade :: string

definition INITIAL_METRICS :: Metrics where
  "INITIAL_METRICS =
     \<lparr>totalRevenue = Num 0, totalTimeTaken = Num 0, timeEfficiencyPct = Num 0,
      revenuePerHour = Num 0, averageROI = Num 0, performanceGrade = ''Needs Improvement''\<rparr>"

text \<open>
  The formulas imported from \<^verbatim>\<open>@/utils/logic\<close>, which is not among the sources; the
  \<^verbatim>\<open>metrics\<close> memo takes them as parameters.
\<close>

record Logic =
  computeTotalRevenue :: "Task list \<Rightarrow> JsNumber"
  computeTimeEfficiency :: "Task list \<Rightarrow> JsNumber"
  computeRevenuePerHour :: "Task list \<Rightarrow> JsNumber"
  computeAverageROI :: "Task list \<Rightarrow> JsNumber"
  computePerformanceGrade :: "JsNumber \<Rightarrow> string"

definition metrics :: "Logic \<Rightarrow> Task list \<Rightarrow> Metrics" where
  "metrics L ts =
     (if length ts = 0 then INITIAL_METRICS
      else
        let avg = computeAverageROI L ts
        in \<lparr>totalRevenue = computeTotalRevenue L ts,
            totalTimeTaken = foldl (\<lambda>s t. js_add s (timeTaken t)) (Num 0) ts,
            timeEfficiencyPct = computeTimeEfficiency L ts,
            revenuePerHour = computeRevenuePerHour L ts,
            averageROI = avg,
            performanceGrade = computePerformanceGrade L avg\<rparr>)"

subsection \<open>Invariants and conditions on operations\<close>

definition ids :: "UseTasksState \<Rightarrow> string list" where
  "ids s = map task_id (tasks s)"

text \<open>
  The ids of the collection are pairwise distinct and the task in the undo slot, if any,
  does not share its id with a task of the collection.
\<close>

definition ids_unique :: "UseTasksState \<Rightarrow> bool" where
  "ids_unique s \<longleftrightarrow>
     distinct (ids s) \<and> (case lastDeleted s of None \<Rightarrow> True | Some d \<Rightarrow> task_id d \<notin> set (ids s))"

text \<open>An id that neither a task of the collection nor the task in the undo slot carries.\<close>

definition fresh_id :: "string \<Rightarrow> UseTasksState \<Rightarrow> bool" where
  "fresh_id i s \<longleftrightarrow>
     i \<notin> set (ids s) \<and> (case lastDeleted s of None \<Rightarrow> True | Some d \<Rightarrow> task_id d \<noteq> i)"

text \<open>
  An operation that cannot introduce a second task with the same id: an \<^verbatim>\<open>addTask\<close> whose
  id (the caller's, or else the generated one) is fresh, an \<^verbatim>\<open>updateTask\<close> whose patch
  carries no \<^verbatim>\<open>id\<close> key, and any delete, undo or dismissal.
\<close>

fun keeps_ids :: "Op \<Rightarrow> UseTasksState \<Rightarrow> bool" where
  "keeps_ids (AddTask uuid now_created now_completed task) s =
     fresh_id (case n_id task of Some i \<Rightarrow> i | None \<Rightarrow> uuid) s"
| "keeps_ids (UpdateTask now i patch) s = (p_id patch = None)"
| "keeps_ids (DeleteTask i) s = True"
| "keeps_ids UndoDelete s = True"
| "keeps_ids ClearLastDeleted s = True"

fun all_keep_ids :: "Op list \<Rightarrow> UseTasksState \<Rightarrow> bool" where
  "all_keep_ids [] s = True"
| "all_keep_ids (x # xs) s = (keeps_ids x s \<and> all_keep_ids xs (step x s))"

text \<open>
  A patch whose \<^verbatim>\<open>timeTaken\<close> key is absent or holds a number, and the operations and
  sequences of operations whose patches are such.
\<close>

definition numeric_patch :: "Partial_Task \<Rightarrow> bool" where
  "numeric_patch patch =
     (case p_timeTaken patch of
        None \<Rightarrow> True
      | Some (Num r) \<Rightarrow> True
      | Some NaN \<Rightarrow> False
      | Some Undefined \<Rightarrow> False)"

fun numeric_op :: "Op \<Rightarrow> bool" where
  "numeric_op (UpdateTask now i patch) = numeric_patch patch"
| "numeric_op (AddTask uuid now_created now_completed task) = True"
| "numeric_op (DeleteTask i) = True"
| "numeric_op UndoDelete = True"
| "numeric_op ClearLastDeleted = True"

definition numeric_ops :: "Op list \<Rightarrow> bool" where
  "numeric_ops ops = list_all numeric_op ops"

text \<open>The \<^verbatim>\<open>timeTaken\<close> values that the tasks of a store and of its undo slot hold.\<close>

definition held :: "UseTasksState \<Rightarrow> JsNumber set" where
  "held s = timeTaken ` (set (tasks s) \<union> set_option (lastDeleted s))"

text \<open>
  Every \<^verbatim>\<open>timeTaken\<close> of the store, undo slot included, is greater than 0 or is one of
  the values \<open>V\<close>.
\<close>

definition timeTaken_ok :: "JsNumber set \<Rightarrow> UseTasksState \<Rightarrow> bool" where
  "timeTaken_ok V s \<longleftrightarrow>
     (\<forall>t\<in>set (tasks s) \<union> set_option (lastDeleted s). js_gt0 (timeTaken t) \<or> timeTaken t \<in> V)"

subsection \<open>Sample data\<close>

definition demo_a :: NewTask where
  "demo_a = \<lparr>n_id = Some ''a'', n_title = ''Call client'', n_status = Done,
     n_priority = High, n_revenue = Num 100, n_timeTaken = Num 2\<rparr>"

definition demo_b :: NewTask where
  "demo_b = \<lparr>n_id = Some ''b'', n_title = ''Send quote'', n_status = Todo,
     n_priority = Low, n_revenue = Num 200, n_timeTaken = Num 0\<rparr>"

definition no_patch :: Partial_Task where
  "no_patch = \<lparr>p_id = None, p_title = None, p_status = None, p_priority = None,
     p_revenue = None, p_timeTaken = None, p_createdAt = None, p_completedAt = None\<rparr>"

definition demo_store :: UseTasksState where
  "demo_store =
     run [AddTask ''u1'' ''T0'' ''T0'' demo_a, AddTask ''u2'' ''T1'' ''T1'' demo_b] initial_state"

definition stored_a :: Task where
  "stored_a = \<lparr>task_id = ''a'', title = ''Call client'', status = Done, priority = High,
     revenue = Num 100, timeTaken = Num 2, createdAt = ''T0'', completedAt = Some ''T0''\<rparr>"

definition stored_b :: Task where
  "stored_b = \<lparr>task_id = ''b'', title = ''Send quote'', status = Todo, priority = Low,
     revenue = Num 200, timeTaken = Num 1, createdAt = ''T1'', completedAt = None\<rparr>"

definition demo_generator :: "nat \<Rightarrow> Task list" where
  "demo_generator n = replicate n stored_a"

text \<open>A second new task that carries the id \<open>a\<close>, and the task it is stored as.\<close>

definition demo_a2 :: NewTask where
  "demo_a2 = \<lparr>n_id = Some ''a'', n_title = ''Call supplier'', n_status = Todo,
     n_priority = Medium, n_revenue = Num 50, n_timeTaken = Num 3\<rparr>"

definition stored_a2 :: Task where
  "stored_a2 = \<lparr>task_id = ''a'', title = ''Call supplier'', status = Todo, priority = Medium,
     revenue = Num 50, timeTaken = Num 3, createdAt = ''T1'', completedAt = None\<rparr>"

definition twin_store :: UseTasksState where
  "twin_store =
     run [AddTask ''u1'' ''T0'' ''T0'' demo_a, AddTask ''u2'' ''T1'' ''T1'' demo_a2] initial_state"

text \<open>A task as the source of the initial load may supply it, with a \<^verbatim>\<open>timeTaken\<close> of 0.\<close>

definition loaded_zero :: Task where
  "loaded_zero = \<lparr>task_id = ''z'', title = ''Imported'', status = Todo, priority = Low,
     revenue = Num 10, timeTaken = Num 0, createdAt = ''T0'', completedAt = None\<rparr>"

section \<open>Properties\<close>

subsection \<open>Basic facts\<close>

lemmas demo_defs =
  demo_a_def demo_b_def no_patch_def demo_store_def initial_state_def stored_a_def stored_b_def
  demo_a2_def stored_a2_def twin_store_def loaded_zero_def

lemmas op_defs =
  addTask_def updateTask_def updateOne_def spread_def deleteTask_def undoDelete_def
  clearLastDeleted_def

lemma demo_store_tasks:
  "demo_store = \<lparr>tasks = [stored_a, stored_b], loading = True, error = None, lastDeleted = None\<rparr>"
  by (simp add: demo_defs op_defs)

lemma twin_store_tasks:
  "twin_store = \<lparr>tasks = [stored_a, stored_a2], loading = True, error = None, lastDeleted = None\<rparr>"
  by (simp add: demo_defs op_defs)

lemma updateTask_sel:
  "tasks (updateTask now i patch s) = map (updateOne now i patch) (tasks s)"
  "lastDeleted (updateTask now i patch s) = lastDeleted s"
  by (simp_all add: updateTask_def)

lemma deleteTask_sel:
  "tasks (deleteTask i s) = filter (\<lambda>t. task_id t \<noteq> i) (tasks s)"
  "lastDeleted (deleteTask i s) = find (\<lambda>t. task_id t = i) (tasks s)"
  by (simp_all add: deleteTask_def Let_def)

lemma find_absent: "i \<notin> task_id ` set ts \<Longrightarrow> find (\<lambda>t. task_id t = i) ts = None"
  by (induction ts) auto

lemma filter_absent: "i \<notin> task_id ` set ts \<Longrightarrow> filter (\<lambda>t. task_id t \<noteq> i) ts = ts"
  by (induction ts) auto


lemma find_Some_set: "find P ts = Some r \<Longrightarrow> r \<in> set ts"
  by (induction ts) (auto split: if_splits)

lemma find_Some_id: "find (\<lambda>t. task_id t = i) ts = Some r \<Longrightarrow> task_id r = i"
  by (induction ts) (auto split: if_splits)

text \<open>When ids are unique, looking a task of the collection up by its id finds that task.\<close>

lemma find_unique:
  "distinct (map task_id ts) \<Longrightarrow> b \<in> set ts \<Longrightarrow> find (\<lambda>t. task_id t = task_id b) ts = Some b"
  by (induction ts) (auto simp: image_iff)

lemma find_filter_other:
  "i \<noteq> j \<Longrightarrow>
   find (\<lambda>t. task_id t = j) (filter (\<lambda>t. task_id t \<noteq> i) ts) = find (\<lambda>t. task_id t = j) ts"
  by (induction ts) auto

lemma updateOne_other: "task_id t \<noteq> i \<Longrightarrow> updateOne now i patch t = t"
  by (simp add: updateOne_def)

lemma updateOne_keeps_id: "p_id patch = None \<Longrightarrow> task_id (updateOne now i patch t) = task_id t"
  by (simp add: updateOne_def spread_def Let_def)

lemma updateOne_keeps_createdAt:
  "p_createdAt patch = None \<Longrightarrow> createdAt (updateOne now i patch t) = createdAt t"
  by (simp add: updateOne_def spread_def Let_def)

lemma updateOne_timeTaken:
  assumes "numeric_patch patch" and "js_gt0 (timeTaken t) \<or> timeTaken t \<in> V"
  shows "js_gt0 (timeTaken (updateOne now i patch t)) \<or> timeTaken (updateOne now i patch t) \<in> V"
proof (cases "task_id t = i")
  case False
  with assms(2) show ?thesis by (simp add: updateOne_def)
next
  case True
  show ?thesis
  proof (cases "p_timeTaken patch")
    case None
    with True assms(2) show ?thesis
      by (cases "timeTaken t") (auto simp: updateOne_def spread_def Let_def)
  next
    case (Some v)
    with assms(1) obtain r where "v = Num r"
      by (cases v) (simp_all add: numeric_patch_def)
    with True Some show ?thesis
      by (simp add: updateOne_def spread_def Let_def)
  qed
qed

text \<open>An update of an id that no task carries changes nothing.\<close>

lemma map_updateOne_absent:
  "i \<notin> task_id ` set ts \<Longrightarrow> map (updateOne now i patch) ts = ts"
  by (induction ts) (auto simp: updateOne_def)

lemma updateTask_absent: "i \<notin> task_id ` set (tasks s) \<Longrightarrow> updateTask now i patch s = s"
  by (simp add: updateTask_def map_updateOne_absent)

text \<open>After the clean-up of the effect has run, the load changes nothing.\<close>

lemma loadTasks_unmounted: "loadTasks gen False fetched s = s"
  by (simp add: loadTasks_def Let_def split: Outcome.splits)

subsection \<open>Metrics of the empty collection\<close>

text \<open>
  C9. When the task collection is empty, the published metrics are the constant
  \<^verbatim>\<open>INITIAL_METRICS\<close>: total revenue, total time, time efficiency, revenue per hour and
  average ROI are all the number 0 (not \<^verbatim>\<open>NaN\<close>) and the grade is the default label \<^verbatim>\<open>Needs Improvement\<close>. None of
  the imported formulas is evaluated, so no division takes place, whatever the formulas are.
\<close>

theorem metrics_empty:
  "metrics L [] = INITIAL_METRICS
   \<and> totalRevenue (metrics L []) = Num 0
   \<and> totalTimeTaken (metrics L []) = Num 0
   \<and> timeEfficiencyPct (metrics L []) = Num 0
   \<and> revenuePerHour (metrics L []) = Num 0
   \<and> averageROI (metrics L []) = Num 0
   \<and> performanceGrade (metrics L []) = ''Needs Improvement''"
  by (simp add: metrics_def INITIAL_METRICS_def)

subsection \<open>The completion stamp\<close>

text \<open>
  C1, as stated, fails. A task added as Done at time \<open>T0\<close> carries the stamp \<open>T0\<close>; after
  its status is edited to Todo (at \<open>T2\<close>) and to Done again (at \<open>T3\<close>) it carries the
  stamp \<open>T3\<close>: the second transition into Done has overwritten the first stamp.
\<close>

theorem completedAt_restamped_counterexample:
  "map completedAt (tasks (run [AddTask ''u1'' ''T0'' ''T0'' demo_a] initial_state)) = [Some ''T0'']
   \<and> map completedAt (tasks (run [AddTask ''u1'' ''T0'' ''T0'' demo_a,
         UpdateTask ''T2'' ''a'' (no_patch\<lparr>p_status := Some Todo\<rparr>),
         UpdateTask ''T3'' ''a'' (no_patch\<lparr>p_status := Some Done\<rparr>)] initial_state)) = [Some ''T3'']"
  by (simp add: demo_defs op_defs)

text \<open>
  C1, amended. \<^verbatim>\<open>addTask\<close> stamps \<^verbatim>\<open>completedAt\<close> exactly when the initial status is Done.
  \<^verbatim>\<open>updateTask\<close> stamps the task with the given id with the current time at every
  transition from a status other than Done into Done, whether or not a stamp was there
  before. In every other case an update whose patch carries no \<^verbatim>\<open>completedAt\<close> key leaves
  the field as it was; in particular such an update never clears a stamp.
\<close>

theorem completedAt_stamped_on_each_transition:
  assumes "k < length (tasks s)"
  shows "(task_id (tasks s ! k) = i \<and> status (tasks s ! k) \<noteq> Done
            \<and> status (tasks (updateTask now i patch s) ! k) = Done
          \<longrightarrow> completedAt (tasks (updateTask now i patch s) ! k) = Some now)
         \<and> (p_completedAt patch = None
            \<and> \<not> (task_id (tasks s ! k) = i \<and> status (tasks s ! k) \<noteq> Done
                   \<and> status (tasks (updateTask now i patch s) ! k) = Done)
          \<longrightarrow> completedAt (tasks (updateTask now i patch s) ! k) = completedAt (tasks s ! k))
         \<and> completedAt (last (tasks (addTask uuid now_created now_completed task s))) =
             (if n_status task = Done then Some now_completed else None)"
  using assms
  by (auto simp: updateTask_sel updateOne_def spread_def Let_def addTask_def split: option.splits)

theorem completedAt_stamped_on_each_transition_witness:
  "(1::nat) < length (tasks demo_store)
   \<and> status (tasks demo_store ! 1) \<noteq> Done
   \<and> completedAt (tasks (updateTask ''T5'' ''b'' (no_patch\<lparr>p_status := Some Done\<rparr>) demo_store) ! 1)
       = Some ''T5''
   \<and> (0::nat) < length (tasks demo_store)
   \<and> p_completedAt (no_patch\<lparr>p_status := Some Todo\<rparr>) = None
   \<and> completedAt (tasks (updateTask ''T6'' ''a'' (no_patch\<lparr>p_status := Some Todo\<rparr>) demo_store) ! 0)
       = Some ''T0''"
proof -
  have h1: "(1::nat) < length (tasks demo_store)" and h0: "(0::nat) < length (tasks demo_store)"
    by (simp_all add: demo_store_tasks)
  have a: "task_id (tasks demo_store ! 1) = ''b'' \<and> status (tasks demo_store ! 1) \<noteq> Done
      \<and> status (tasks (updateTask ''T5'' ''b'' (no_patch\<lparr>p_status := Some Done\<rparr>) demo_store) ! 1)
          = Done"
    by (simp add: demo_store_tasks stored_a_def stored_b_def updateTask_sel updateOne_def
        spread_def no_patch_def)
  have b: "p_completedAt (no_patch\<lparr>p_status := Some Todo\<rparr>) = None
      \<and> \<not> (task_id (tasks demo_store ! 0) = ''a'' \<and> status (tasks demo_store ! 0) \<noteq> Done
             \<and> status (tasks (updateTask ''T6'' ''a'' (no_patch\<lparr>p_status := Some Todo\<rparr>)
                    demo_store) ! 0) = Done)"
    by (simp add: demo_store_tasks stored_a_def no_patch_def)
  have c: "completedAt (tasks demo_store ! 0) = Some ''T0''"
    by (simp add: demo_store_tasks stored_a_def)
  from completedAt_stamped_on_each_transition
         [OF h1, of "''b''" "''T5''" "no_patch\<lparr>p_status := Some Done\<rparr>"] a
  have r1: "completedAt (tasks (updateTask ''T5'' ''b'' (no_patch\<lparr>p_status := Some Done\<rparr>)
      demo_store) ! 1) = Some ''T5''"
    by blast
  from completedAt_stamped_on_each_transition
         [OF h0, of "''a''" "''T6''" "no_patch\<lparr>p_status := Some Todo\<rparr>"] b c
  have r2: "completedAt (tasks (updateTask ''T6'' ''a'' (no_patch\<lparr>p_status := Some Todo\<rparr>)
      demo_store) ! 0) = Some ''T0''"
    by simp
  from h1 h0 a b r1 r2 show ?thesis by blast
qed

subsection \<open>Deleting an id that is absent\<close>

text \<open>
  C2, as stated, fails. After task \<open>a\<close> is deleted from the sample store the undo slot holds
  it; deleting the id \<open>zz\<close>, which no task carries, empties the slot.
\<close>

theorem deleteTask_absent_counterexample:
  "''zz'' \<notin> task_id ` set (tasks (deleteTask ''a'' demo_store))
   \<and> lastDeleted (deleteTask ''a'' demo_store) = Some stored_a
   \<and> lastDeleted (deleteTask ''zz'' (deleteTask ''a'' demo_store)) = None"
  by (simp add: demo_store_tasks deleteTask_sel stored_a_def stored_b_def)

text \<open>
  C2, amended. For every id that no task of the collection carries and every value of the
  undo slot, \<^verbatim>\<open>deleteTask\<close> leaves the collection (and the loading flag and the error)
  unchanged and leaves the undo slot empty.
\<close>

theorem deleteTask_absent_clears_slot:
  assumes "i \<notin> task_id ` set (tasks s)"
  shows "deleteTask i s = s\<lparr>lastDeleted := None\<rparr>"
  using assms by (simp add: deleteTask_def find_absent filter_absent)

theorem deleteTask_absent_clears_slot_witness:
  "''zz'' \<notin> task_id ` set (tasks demo_store)
   \<and> tasks (deleteTask ''zz'' demo_store) = [stored_a, stored_b]
   \<and> lastDeleted (deleteTask ''zz'' demo_store) = None"
proof -
  have h: "''zz'' \<notin> task_id ` set (tasks demo_store)"
    by (simp add: demo_store_tasks stored_a_def stored_b_def)
  from deleteTask_absent_clears_slot [OF h] h show ?thesis
    by (simp add: demo_store_tasks)
qed

subsection \<open>The initial load\<close>

text \<open>
  C3, as stated, fails. When \<^verbatim>\<open>fetch\<close> throws, or the body of an OK response fails to
  parse, the collection of the first render stays empty and only the error is set, although
  the generator would have produced a non-empty dataset.
\<close>

theorem loadTasks_throw_counterexample:
  "tasks (loadTasks demo_generator True (Throws (Some ''Failed to fetch'')) initial_state) = []
   \<and> error (loadTasks demo_generator True (Throws (Some ''Failed to fetch'')) initial_state)
       = Some ''Failed to fetch''
   \<and> tasks (loadTasks demo_generator True (Returns \<lparr>ok = True, json = Throws None\<rparr>)
        initial_state) = []
   \<and> demo_generator 50 \<noteq> []"
  by (simp add: loadTasks_def initial_state_def demo_generator_def)

text \<open>
  C3, amended. While the component is mounted: when the response is not OK, or its body
  parses to something that is not an array, or to the empty array, the collection becomes
  \<^verbatim>\<open>generateSalesTasks(50)\<close>; a non-empty array becomes the collection as it is; when
  \<^verbatim>\<open>fetch\<close> or the parse throws, the collection is left as it was and the error is set to
  the message of the thrown value, or to \<^verbatim>\<open>Failed to load tasks\<close> when it has none. In every
  case the loading flag ends up false.
\<close>

theorem loadTasks_outcomes:
  "tasks (loadTasks gen True (Returns \<lparr>ok = False, json = j\<rparr>) s) = gen 50
   \<and> tasks (loadTasks gen True (Returns \<lparr>ok = True, json = Returns JNotArray\<rparr>) s) = gen 50
   \<and> tasks (loadTasks gen True (Returns \<lparr>ok = True, json = Returns (JArray [])\<rparr>) s) = gen 50
   \<and> tasks (loadTasks gen True (Returns \<lparr>ok = True, json = Returns (JArray (x # xs))\<rparr>) s) = x # xs
   \<and> tasks (loadTasks gen True (Throws e) s) = tasks s
   \<and> tasks (loadTasks gen True (Returns \<lparr>ok = True, json = Throws e\<rparr>) s) = tasks s
   \<and> error (loadTasks gen True (Throws e) s)
       = Some (case e of Some m \<Rightarrow> m | None \<Rightarrow> ''Failed to load tasks'')
   \<and> error (loadTasks gen True (Returns \<lparr>ok = True, json = Throws e\<rparr>) s)
       = Some (case e of Some m \<Rightarrow> m | None \<Rightarrow> ''Failed to load tasks'')
   \<and> loading (loadTasks gen True fetched s) = False"
  by (simp add: loadTasks_def Let_def split: Outcome.splits)

subsection \<open>Delete and undo\<close>



text \<open>
  C5, as stated, fails. Ids are not kept unique, and in the store that two \<^verbatim>\<open>addTask\<close>
  calls with the caller-supplied id \<open>a\<close> produce, the two tasks are distinct records of
  the collection with the same id: \<^verbatim>\<open>deleteTask\<close> of the first one's id removes both and
  saves the first, \<^verbatim>\<open>deleteTask\<close> of the second one's id finds nothing and empties the undo
  slot, and \<^verbatim>\<open>undoDelete\<close> then reinserts nothing: the second task is not restored.
\<close>

theorem second_delete_twins_counterexample:
  "stored_a \<in> set (tasks twin_store) \<and> stored_a2 \<in> set (tasks twin_store)
   \<and> stored_a \<noteq> stored_a2
   \<and> lastDeleted (deleteTask (task_id stored_a2) (deleteTask (task_id stored_a) twin_store)) = None
   \<and> tasks (undoDelete (deleteTask (task_id stored_a2) (deleteTask (task_id stored_a) twin_store)))
       = []"
  by (simp add: twin_store_tasks deleteTask_sel undoDelete_def stored_a_def stored_a2_def)

text \<open>
  C5, amended. Let \<open>A\<close> and \<open>B\<close> be tasks of the collection with different ids, \<open>B\<close>
  being the record that a lookup of its id finds, that is the first record that carries
  this id (every task of the collection is, when ids are unique: lemma \<open>find_unique\<close>).
  After \<^verbatim>\<open>deleteTask(A.id)\<close> and \<^verbatim>\<open>deleteTask(B.id)\<close> the undo slot holds \<open>B\<close>, not
  \<open>A\<close>; \<^verbatim>\<open>undoDelete\<close> then appends \<open>B\<close> and nothing else to what is left of the
  collection, so \<open>A\<close> is neither in the collection nor in the undo slot, which is empty.
\<close>

theorem second_delete_discards_first:
  assumes "A \<in> set (tasks s)"
    and "find (\<lambda>t. task_id t = task_id B) (tasks s) = Some B"
    and "task_id A \<noteq> task_id B"
  shows "lastDeleted (deleteTask (task_id B) (deleteTask (task_id A) s)) = Some B
         \<and> tasks (undoDelete (deleteTask (task_id B) (deleteTask (task_id A) s))) =
             filter (\<lambda>t. task_id t \<noteq> task_id A \<and> task_id t \<noteq> task_id B) (tasks s) @ [B]
         \<and> A \<notin> set (tasks (undoDelete (deleteTask (task_id B) (deleteTask (task_id A) s))))
         \<and> lastDeleted (undoDelete (deleteTask (task_id B) (deleteTask (task_id A) s))) = None"
proof -
  let ?s2 = "deleteTask (task_id B) (deleteTask (task_id A) s)"
  have slot: "lastDeleted ?s2 = Some B"
    using assms(2,3) by (simp add: deleteTask_sel find_filter_other)
  have coll: "tasks ?s2 = filter (\<lambda>t. task_id t \<noteq> task_id A \<and> task_id t \<noteq> task_id B) (tasks s)"
    by (simp add: deleteTask_sel)
  have undo: "undoDelete ?s2 = ?s2\<lparr>tasks := tasks ?s2 @ [B], lastDeleted := None\<rparr>"
    using slot by (simp add: undoDelete_def)
  have t: "tasks (undoDelete ?s2) =
      filter (\<lambda>t. task_id t \<noteq> task_id A \<and> task_id t \<noteq> task_id B) (tasks s) @ [B]"
    by (simp add: undo coll)
  have gone: "A \<notin> set (tasks (undoDelete ?s2))"
    using assms(3) by (auto simp: t)
  have empty: "lastDeleted (undoDelete ?s2) = None"
    by (simp add: undo)
  from slot t gone empty show ?thesis by blast
qed

theorem second_delete_discards_first_witness:
  "stored_a \<in> set (tasks demo_store)
   \<and> find (\<lambda>t. task_id t = task_id stored_b) (tasks demo_store) = Some stored_b
   \<and> task_id stored_a \<noteq> task_id stored_b
   \<and> tasks (undoDelete (deleteTask ''b'' (deleteTask ''a'' demo_store))) = [stored_b]
   \<and> lastDeleted (undoDelete (deleteTask ''b'' (deleteTask ''a'' demo_store))) = None"
proof -
  have h1: "stored_a \<in> set (tasks demo_store)"
    by (simp add: demo_store_tasks)
  have h2: "find (\<lambda>t. task_id t = task_id stored_b) (tasks demo_store) = Some stored_b"
    by (simp add: demo_store_tasks stored_a_def stored_b_def)
  have h3: "task_id stored_a \<noteq> task_id stored_b"
    by (simp add: stored_a_def stored_b_def)
  from second_delete_discards_first [OF h1 h2 h3] h1 h2 h3 show ?thesis
    by (simp add: demo_store_tasks stored_a_def stored_b_def)
qed

subsection \<open>The time taken\<close>

lemma step_timeTaken_ok:
  assumes "numeric_op x" and "timeTaken_ok V s"
  shows "timeTaken_ok V (step x s)"
proof (cases x)
  case (AddTask u c d task)
  with assms(2) show ?thesis
    by (auto simp: timeTaken_ok_def addTask_def)
next
  case (UpdateTask now i patch)
  with assms(1) have "numeric_patch patch" by simp
  with assms(2) UpdateTask show ?thesis
    by (auto simp: timeTaken_ok_def updateTask_sel dest: updateOne_timeTaken)
next
  case (DeleteTask i)
  show ?thesis
  proof (cases "find (\<lambda>t. task_id t = i) (tasks s)")
    case None
    with assms(2) DeleteTask show ?thesis
      by (auto simp: timeTaken_ok_def deleteTask_sel)
  next
    case (Some r)
    then have "r \<in> set (tasks s)" by (rule find_Some_set)
    with assms(2) Some DeleteTask show ?thesis
      by (auto simp: timeTaken_ok_def deleteTask_sel)
  qed
next
  case UndoDelete
  with assms(2) show ?thesis
    by (auto simp: timeTaken_ok_def undoDelete_def split: option.splits)
next
  case ClearLastDeleted
  with assms(2) show ?thesis
    by (auto simp: timeTaken_ok_def clearLastDeleted_def)
qed

lemma run_timeTaken_ok:
  "list_all numeric_op ops \<Longrightarrow> timeTaken_ok V s \<Longrightarrow> timeTaken_ok V (run ops s)"
  by (induction ops arbitrary: s) (simp_all add: step_timeTaken_ok)

lemma updateTask_timeTaken_number:
  assumes "k < length (tasks s)" and "task_id (tasks s ! k) = i"
    and "timeTaken (spread (tasks s ! k) patch) = Num r"
  shows "timeTaken (tasks (updateTask now i patch s) ! k) = Num (if r \<le> 0 then 1 else r)"
  using assms by (simp add: updateTask_sel updateOne_def Let_def)

text \<open>
  C6, as stated, fails, in two ways. A task that the initial load accepted with a
  \<^verbatim>\<open>timeTaken\<close> of 0 keeps it through later \<^verbatim>\<open>addTask\<close> and \<^verbatim>\<open>updateTask\<close> calls that do
  not address it. And \<^verbatim>\<open>updateTask\<close> with a patch whose \<^verbatim>\<open>timeTaken\<close> is \<^verbatim>\<open>NaN\<close> stores
  \<^verbatim>\<open>NaN\<close>, which is not greater than 0, because \<^verbatim>\<open>NaN <= 0\<close> is false; \<^verbatim>\<open>addTask\<close> with
  the same value stores 1.
\<close>

theorem timeTaken_not_positive_counterexample:
  "map timeTaken (tasks (run [AddTask ''u1'' ''T1'' ''T1'' demo_a,
        UpdateTask ''T2'' ''a'' (no_patch\<lparr>p_title := Some ''Call back''\<rparr>)]
      (loadTasks demo_generator True (Returns \<lparr>ok = True, json = Returns (JArray [loaded_zero])\<rparr>)
         initial_state))) = [Num 0, Num 2]
   \<and> \<not> js_gt0 (Num 0)
   \<and> map timeTaken (tasks (run [AddTask ''u1'' ''T0'' ''T0'' demo_a,
        UpdateTask ''T2'' ''a'' (no_patch\<lparr>p_timeTaken := Some NaN\<rparr>)] initial_state)) = [NaN]
   \<and> \<not> js_gt0 NaN
   \<and> map timeTaken (tasks (run [AddTask ''u1'' ''T0'' ''T0'' (demo_a\<lparr>n_timeTaken := NaN\<rparr>)]
        initial_state)) = [Num 1]"
  by (simp add: demo_defs op_defs loadTasks_def)

text \<open>
  C6, amended. Every task that \<^verbatim>\<open>addTask\<close> appends has a \<^verbatim>\<open>timeTaken\<close> strictly greater
  than 0: a value that is not greater than 0 is stored as 1. For the task with the given
  id, \<^verbatim>\<open>updateTask\<close> stores 1 when the merged \<^verbatim>\<open>timeTaken\<close> is a number that is 0 or
  negative, and the merged number itself when it is positive. After every sequence of store
  operations whose \<^verbatim>\<open>updateTask\<close> patches carry a number under \<^verbatim>\<open>timeTaken\<close> or no such
  key, every stored \<^verbatim>\<open>timeTaken\<close> is strictly greater than 0 or is a value that a task of
  the starting store or of its undo slot already held; so from a starting store whose
  tasks and undo slot have a \<^verbatim>\<open>timeTaken\<close> greater than 0, as the empty store of the first
  render has, all stored values are strictly greater than 0.
\<close>

theorem timeTaken_positive_after_writes:
  assumes "numeric_ops ops"
  shows "(\<forall>t\<in>set (tasks (run ops s)). js_gt0 (timeTaken t) \<or> timeTaken t \<in> held s)
         \<and> ((\<forall>t\<in>set (tasks s) \<union> set_option (lastDeleted s). js_gt0 (timeTaken t))
              \<longrightarrow> (\<forall>t\<in>set (tasks (run ops s)). js_gt0 (timeTaken t)))
         \<and> js_gt0 (timeTaken (last (tasks (addTask uuid now_created now_completed task s))))
         \<and> (\<not> js_gt0 (n_timeTaken task) \<longrightarrow>
              timeTaken (last (tasks (addTask uuid now_created now_completed task s))) = Num 1)
         \<and> (k < length (tasks s) \<and> task_id (tasks s ! k) = i
              \<and> timeTaken (spread (tasks s ! k) patch) = Num r
            \<longrightarrow> timeTaken (tasks (updateTask now i patch s) ! k) = Num (if r \<le> 0 then 1 else r))"
proof -
  from assms have ops: "list_all numeric_op ops"
    by (simp add: numeric_ops_def)
  have "timeTaken_ok (held s) s"
    by (auto simp: timeTaken_ok_def held_def)
  with ops have "timeTaken_ok (held s) (run ops s)"
    by (rule run_timeTaken_ok)
  then have a: "\<forall>t\<in>set (tasks (run ops s)). js_gt0 (timeTaken t) \<or> timeTaken t \<in> held s"
    by (simp add: timeTaken_ok_def)
  have b: "(\<forall>t\<in>set (tasks s) \<union> set_option (lastDeleted s). js_gt0 (timeTaken t))
      \<longrightarrow> (\<forall>t\<in>set (tasks (run ops s)). js_gt0 (timeTaken t))"
  proof
    assume "\<forall>t\<in>set (tasks s) \<union> set_option (lastDeleted s). js_gt0 (timeTaken t)"
    then have "timeTaken_ok {} s"
      by (simp add: timeTaken_ok_def)
    with ops have "timeTaken_ok {} (run ops s)"
      by (rule run_timeTaken_ok)
    then show "\<forall>t\<in>set (tasks (run ops s)). js_gt0 (timeTaken t)"
      by (simp add: timeTaken_ok_def)
  qed
  have c: "js_gt0 (timeTaken (last (tasks (addTask uuid now_created now_completed task s))))"
    by (simp add: addTask_def)
  have d: "\<not> js_gt0 (n_timeTaken task) \<longrightarrow>
      timeTaken (last (tasks (addTask uuid now_created now_completed task s))) = Num 1"
    by (simp add: addTask_def)
  have e: "k < length (tasks s) \<and> task_id (tasks s ! k) = i
        \<and> timeTaken (spread (tasks s ! k) patch) = Num r
      \<longrightarrow> timeTaken (tasks (updateTask now i patch s) ! k) = Num (if r \<le> 0 then 1 else r)"
    using updateTask_timeTaken_number by blast
  from a b c d e show ?thesis by blast
qed

theorem timeTaken_positive_after_writes_witness:
  "numeric_ops [AddTask ''u2'' ''T1'' ''T1'' demo_b,
       UpdateTask ''T2'' ''b'' (no_patch\<lparr>p_timeTaken := Some (Num 5)\<rparr>)]
   \<and> map timeTaken (tasks (run [AddTask ''u2'' ''T1'' ''T1'' demo_b,
       UpdateTask ''T2'' ''b'' (no_patch\<lparr>p_timeTaken := Some (Num 5)\<rparr>)] initial_state)) = [Num 5]
   \<and> list_all (\<lambda>t. js_gt0 (timeTaken t)) (tasks (run [AddTask ''u2'' ''T1'' ''T1'' demo_b,
       UpdateTask ''T2'' ''b'' (no_patch\<lparr>p_timeTaken := Some (Num 5)\<rparr>)] initial_state))
   \<and> \<not> js_gt0 (n_timeTaken demo_b)
   \<and> timeTaken (last (tasks (addTask ''u2'' ''T1'' ''T1'' demo_b initial_state))) = Num 1
   \<and> (0::nat) < length (tasks demo_store)
   \<and> timeTaken (tasks demo_store ! 0) = Num 2
   \<and> timeTaken (spread (tasks demo_store ! 0) (no_patch\<lparr>p_timeTaken := Some (Num (- 3))\<rparr>))
       = Num (- 3)
   \<and> timeTaken (tasks (updateTask ''T2'' ''a'' (no_patch\<lparr>p_timeTaken := Some (Num (- 3))\<rparr>)
        demo_store) ! 0) = Num 1"
proof -
  let ?ops = "[AddTask ''u2'' ''T1'' ''T1'' demo_b,
       UpdateTask ''T2'' ''b'' (no_patch\<lparr>p_timeTaken := Some (Num 5)\<rparr>)]"
  let ?p = "no_patch\<lparr>p_timeTaken := Some (Num (- 3))\<rparr>"
  have h: "numeric_ops ?ops"
    by (simp add: numeric_ops_def numeric_patch_def no_patch_def)
  have start: "\<forall>t\<in>set (tasks initial_state) \<union> set_option (lastDeleted initial_state).
      js_gt0 (timeTaken t)"
    by (simp add: initial_state_def)
  have r: "map timeTaken (tasks (run ?ops initial_state)) = [Num 5]"
    by (simp add: demo_defs op_defs)
  have nb: "\<not> js_gt0 (n_timeTaken demo_b)"
    by (simp add: demo_b_def)
  have k0: "(0::nat) < length (tasks demo_store)"
    and ida: "task_id (tasks demo_store ! 0) = ''a''"
    and before: "timeTaken (tasks demo_store ! 0) = Num 2"
    and merged: "timeTaken (spread (tasks demo_store ! 0) ?p) = Num (- 3)"
    by (simp_all add: demo_store_tasks stored_a_def spread_def no_patch_def)
  from timeTaken_positive_after_writes
         [OF h, of initial_state "''u2''" "''T1''" "''T1''" demo_b] start nb
  have all: "\<forall>t\<in>set (tasks (run ?ops initial_state)). js_gt0 (timeTaken t)"
    and add: "timeTaken (last (tasks (addTask ''u2'' ''T1'' ''T1'' demo_b initial_state))) = Num 1"
    by blast+
  from timeTaken_positive_after_writes
         [OF h, of demo_store _ _ _ _ 0 "''a''" ?p "- 3" "''T2''"] k0 ida merged
  have upd: "timeTaken (tasks (updateTask ''T2'' ''a'' ?p demo_store) ! 0) = Num 1"
    by simp
  from all have "list_all (\<lambda>t. js_gt0 (timeTaken t)) (tasks (run ?ops initial_state))"
    by (simp add: list_all_iff)
  with h r nb add k0 before merged upd show ?thesis by blast
qed

subsection \<open>Uniqueness of ids\<close>

text \<open>
  C7, as stated, fails. Two \<^verbatim>\<open>addTask\<close> calls whose argument carries the same id \<open>a\<close>
  leave two tasks with the id \<open>a\<close> in the collection: \<^verbatim>\<open>addTask\<close> takes the caller's id
  as it is.
\<close>

theorem duplicate_id_counterexample:
  "\<not> distinct (map task_id (tasks (run [AddTask ''u1'' ''T0'' ''T0'' demo_a,
        AddTask ''u2'' ''T1'' ''T1'' demo_a] initial_state)))"
  by (simp add: demo_defs op_defs)

lemma ids_updateTask: "p_id patch = None \<Longrightarrow> ids (updateTask now i patch s) = ids s"
  by (simp add: ids_def updateTask_sel updateOne_keeps_id)

lemma step_ids_unique:
  assumes "ids_unique s" and "keeps_ids x s"
  shows "ids_unique (step x s)"
proof (cases x)
  case (AddTask u c d task)
  with assms show ?thesis
    by (auto simp: ids_unique_def fresh_id_def ids_def addTask_def split: option.splits)
next
  case (UpdateTask now i patch)
  with assms have "p_id patch = None" by simp
  then have "ids (updateTask now i patch s) = ids s"
    by (rule ids_updateTask)
  with assms(1) UpdateTask show ?thesis
    by (simp add: ids_unique_def updateTask_sel split: option.splits)
next
  case (DeleteTask i)
  have d: "distinct (ids (deleteTask i s))"
    using assms(1) by (simp add: ids_unique_def ids_def deleteTask_sel distinct_map_filter)
  have "case find (\<lambda>t. task_id t = i) (tasks s) of None \<Rightarrow> True
        | Some r \<Rightarrow> task_id r \<notin> set (ids (deleteTask i s))"
    by (auto simp: ids_def deleteTask_sel dest: find_Some_id split: option.splits)
  with d DeleteTask show ?thesis
    by (simp add: ids_unique_def deleteTask_sel)
next
  case UndoDelete
  with assms(1) show ?thesis
    by (auto simp: ids_unique_def ids_def undoDelete_def split: option.splits)
next
  case ClearLastDeleted
  with assms(1) show ?thesis
    by (simp add: ids_unique_def ids_def clearLastDeleted_def)
qed

lemma run_ids_unique: "ids_unique s \<Longrightarrow> all_keep_ids ops s \<Longrightarrow> ids_unique (run ops s)"
  by (induction ops arbitrary: s) (simp_all add: step_ids_unique)

text \<open>
  C7, amended. Start from a store whose ids are pairwise distinct and whose undo slot does
  not hold a task with an id of the collection (the empty store of the first render is
  one). After every sequence of store operations in which each \<^verbatim>\<open>addTask\<close> uses an id
  (the caller's, or else the generated one) that at that moment neither a task of the
  collection nor the task in the undo slot carries, and in which no \<^verbatim>\<open>updateTask\<close> patch
  carries an \<^verbatim>\<open>id\<close> key, all ids in the live collection are pairwise distinct.
\<close>

theorem ids_distinct_when_fresh:
  assumes "ids_unique s" and "all_keep_ids ops s"
  shows "distinct (map task_id (tasks (run ops s)))"
  using run_ids_unique [OF assms] by (simp add: ids_unique_def ids_def)

theorem ids_distinct_when_fresh_witness:
  "ids_unique initial_state
   \<and> all_keep_ids [AddTask ''u1'' ''T0'' ''T0'' demo_a, AddTask ''u2'' ''T1'' ''T1'' demo_b,
        DeleteTask ''a'', UpdateTask ''T2'' ''b'' no_patch, UndoDelete] initial_state
   \<and> map task_id (tasks (run [AddTask ''u1'' ''T0'' ''T0'' demo_a,
        AddTask ''u2'' ''T1'' ''T1'' demo_b, DeleteTask ''a'', UpdateTask ''T2'' ''b'' no_patch,
        UndoDelete] initial_state)) = [''b'', ''a'']
   \<and> distinct (map task_id (tasks (run [AddTask ''u1'' ''T0'' ''T0'' demo_a,
        AddTask ''u2'' ''T1'' ''T1'' demo_b, DeleteTask ''a'', UpdateTask ''T2'' ''b'' no_patch,
        UndoDelete] initial_state)))"
proof -
  have h1: "ids_unique initial_state"
    by (simp add: ids_unique_def ids_def initial_state_def)
  have h2: "all_keep_ids [AddTask ''u1'' ''T0'' ''T0'' demo_a, AddTask ''u2'' ''T1'' ''T1'' demo_b,
        DeleteTask ''a'', UpdateTask ''T2'' ''b'' no_patch, UndoDelete] initial_state"
    by (simp add: fresh_id_def ids_def demo_defs op_defs)
  from ids_distinct_when_fresh [OF h1 h2] h1 h2 show ?thesis
    by (simp add: demo_defs op_defs)
qed

subsection \<open>What an update leaves alone\<close>

text \<open>
  C8, as stated, fails. A patch is a \<^verbatim>\<open>Partial<Task>\<close> and may carry the keys \<^verbatim>\<open>id\<close> and
  \<^verbatim>\<open>createdAt\<close>; the spread then overwrites both fields of the task: task \<open>a\<close>, created at
  \<open>T0\<close>, becomes task \<open>z\<close>, created at \<open>T9\<close>.
\<close>

theorem updateTask_overwrites_id_counterexample:
  "map task_id (tasks demo_store) = [''a'', ''b'']
   \<and> map createdAt (tasks demo_store) = [''T0'', ''T1'']
   \<and> map task_id (tasks (updateTask ''T2'' ''a''
        (no_patch\<lparr>p_id := Some ''z'', p_createdAt := Some ''T9''\<rparr>) demo_store)) = [''z'', ''b'']
   \<and> map createdAt (tasks (updateTask ''T2'' ''a''
        (no_patch\<lparr>p_id := Some ''z'', p_createdAt := Some ''T9''\<rparr>) demo_store)) = [''T9'', ''T1'']"
  by (simp add: demo_store_tasks stored_a_def stored_b_def no_patch_def updateTask_sel
      updateOne_def spread_def)

text \<open>
  C8, amended. For every collection and every id, \<^verbatim>\<open>updateTask\<close> with a patch that carries
  no \<^verbatim>\<open>id\<close> key leaves the id of every task as it was, and with a patch that carries no
  \<^verbatim>\<open>createdAt\<close> key leaves the \<^verbatim>\<open>createdAt\<close> of every task as it was.
\<close>

theorem updateTask_keeps_id_createdAt:
  "(p_id patch = None \<longrightarrow>
      map task_id (tasks (updateTask now i patch s)) = map task_id (tasks s))
   \<and> (p_createdAt patch = None \<longrightarrow>
      map createdAt (tasks (updateTask now i patch s)) = map createdAt (tasks s))"
  by (simp add: updateTask_sel updateOne_keeps_id updateOne_keeps_createdAt)

theorem updateTask_keeps_id_createdAt_witness:
  "p_id (no_patch\<lparr>p_title := Some ''Call back''\<rparr>) = None
   \<and> p_createdAt (no_patch\<lparr>p_title := Some ''Call back''\<rparr>) = None
   \<and> map title (tasks (updateTask ''T2'' ''a'' (no_patch\<lparr>p_title := Some ''Call back''\<rparr>)
        demo_store)) = [''Call back'', ''Send quote'']
   \<and> map task_id (tasks (updateTask ''T2'' ''a'' (no_patch\<lparr>p_title := Some ''Call back''\<rparr>)
        demo_store)) = [''a'', ''b'']
   \<and> map createdAt (tasks (updateTask ''T2'' ''a'' (no_patch\<lparr>p_title := Some ''Call back''\<rparr>)
        demo_store)) = [''T0'', ''T1'']"
proof -
  have h1: "p_id (no_patch\<lparr>p_title := Some ''Call back''\<rparr>) = None"
    and h2: "p_createdAt (no_patch\<lparr>p_title := Some ''Call back''\<rparr>) = None"
    by (simp_all add: no_patch_def)
  have t: "map title (tasks (updateTask ''T2'' ''a'' (no_patch\<lparr>p_title := Some ''Call back''\<rparr>)
        demo_store)) = [''Call back'', ''Send quote'']"
    by (simp add: demo_store_tasks stored_a_def stored_b_def no_patch_def updateTask_sel
      updateOne_def spread_def)
  from updateTask_keeps_id_createdAt
         [of "no_patch\<lparr>p_title := Some ''Call back''\<rparr>" "''T2''" "''a''" demo_store] h1 h2 t
  show ?thesis
    by (simp add: demo_store_tasks stored_a_def stored_b_def)
qed

text \<open>
  C10. For every collection, id and patch, \<^verbatim>\<open>updateTask\<close> keeps the number of tasks; the
  task at each position of the result is the image of the task at the same position
  before, so the order is kept; and every task whose id differs from the given id is
  unchanged in all fields. The undo slot is not touched.
\<close>

theorem updateTask_frame:
  "length (tasks (updateTask now i patch s)) = length (tasks s)
   \<and> (\<forall>k<length (tasks s).
        tasks (updateTask now i patch s) ! k = updateOne now i patch (tasks s ! k)
        \<and> (task_id (tasks s ! k) \<noteq> i \<longrightarrow> tasks (updateTask now i patch s) ! k = tasks s ! k))
   \<and> lastDeleted (updateTask now i patch s) = lastDeleted s"
  by (simp add: updateTask_sel updateOne_def)

theorem updateTask_frame_witness:
  "length (tasks (updateTask ''T2'' ''a'' (no_patch\<lparr>p_title := Some ''Call back''\<rparr>) demo_store)) = 2
   \<and> (1::nat) < length (tasks demo_store)
   \<and> task_id (tasks demo_store ! 1) \<noteq> ''a''
   \<and> tasks (updateTask ''T2'' ''a'' (no_patch\<lparr>p_title := Some ''Call back''\<rparr>) demo_store) ! 1
       = stored_b"
proof -
  have h1: "(1::nat) < length (tasks demo_store)"
    by (simp add: demo_store_tasks)
  have h2: "task_id (tasks demo_store ! 1) \<noteq> ''a''"
    by (simp add: demo_store_tasks stored_b_def)
  from updateTask_frame [of "''T2''" "''a''" "no_patch\<lparr>p_title := Some ''Call back''\<rparr>" demo_store]
  have len: "length (tasks (updateTask ''T2'' ''a'' (no_patch\<lparr>p_title := Some ''Call back''\<rparr>)
        demo_store)) = length (tasks demo_store)"
    and same: "\<forall>k<length (tasks demo_store). task_id (tasks demo_store ! k) \<noteq> ''a'' \<longrightarrow>
       tasks (updateTask ''T2'' ''a'' (no_patch\<lparr>p_title := Some ''Call back''\<rparr>) demo_store) ! k
         = tasks demo_store ! k"
    by blast+
  from same h1 h2
  have "tasks (updateTask ''T2'' ''a'' (no_patch\<lparr>p_title := Some ''Call back''\<rparr>) demo_store) ! 1
      = tasks demo_store ! 1"
    by blast
  with len h1 h2 show ?thesis
    by (simp add: demo_store_tasks)
qed

end
